theory Spec2Isabelle
  imports Main "HOL-Library.Word"
begin

section \<open>Request handling of the MinBFT core (core/request.go)\<close>

text \<open>
  The file core/request.go builds the request stage of a replica out of small closures:
  every \<open>makeX\<close> function takes the collaborators of a stage and returns the stage as a
  function. The embedding keeps this shape. A constructor \<open>makeX\<close> is a HOL function
  whose first arguments are the collaborators and whose remaining arguments are those of
  the closure it returns, followed by the state the call starts in.

  Whatever a Go call can change is gathered in a state of type \<open>'w\<close>, passed in and
  returned. A Go call either returns or panics, so a call that yields a value of type
  \<open>'a\<close> is a function \<open>'w \<Rightarrow> 'a outcome \<times> 'w\<close>. The collaborators are arbitrary such
  functions: the theorems hold for every implementation of them.
\<close>

subsection \<open>Values\<close>

type_synonym bytes = "8 word list"

text \<open>
  A Go \<open>error\<close> is represented by the text its \<open>Error()\<close> method yields, which is all
  that \<open>fmt.Errorf\<close> with the verb \<open>%s\<close> reads from it; the nil error is \<open>None\<close>.
\<close>

type_synonym error = string

datatype panic_value =
    PanicString string
  | PanicError error
  | RuntimeError string

datatype 'a outcome =
    Returned 'a
  | Panicked panic_value

type_synonym ('a, 'w) go = "'w \<Rightarrow> 'a outcome \<times> 'w"

subsection \<open>Messages\<close>

text \<open>
  The message structures of package messages, with the fields core/request.go reads and
  writes. A message handed to the closures below is taken to have its \<open>Msg\<close> part
  present, as their doc comments assume (authentic and internally consistent).
\<close>

record Request_M =
  ClientId :: "32 word"
  Seq :: "64 word"
  Payload :: bytes

record Request =
  Msg :: Request_M
  Signature :: bytes

record UI =
  Counter :: "64 word"
  Cert :: bytes

record Prepare_M =
  View :: "64 word"
  ReplicaId :: "32 word"
  Request :: Request

record Prepare =
  Msg :: Prepare_M
  Ui :: "UI option"

record Reply_M =
  ReplicaId :: "32 word"
  ClientId :: "32 word"
  Seq :: "64 word"
  Result :: bytes

record Reply =
  Msg :: Reply_M
  Signature :: bytes

subsection \<open>Deferred calls\<close>

text \<open>
  \<open>defer f()\<close> runs \<open>f\<close> when the surrounding function leaves, after its results are
  set and also when it leaves by a panic. A panic of the deferred call replaces the way
  the function was leaving.
\<close>

definition deferred :: "(unit, 'w) go \<Rightarrow> 'a outcome \<times> 'w \<Rightarrow> 'a outcome \<times> 'w" where
  "deferred f leaving =
     (case leaving of
        (r, w) \<Rightarrow>
          (case f w of
             (Panicked p, w') \<Rightarrow> (Panicked p, w')
           | (Returned _, w') \<Rightarrow> (r, w')))"

subsection \<open>makeRequestProcessor\<close>

type_synonym 'w requestSeqCapturer = "Request \<Rightarrow> (bool \<times> (unit, 'w) go, 'w) go"
type_synonym 'w requestApplier = "Request \<Rightarrow> (error option, 'w) go"
type_synonym 'w requestProcessor = "Request \<Rightarrow> (bool \<times> error option, 'w) go"

definition makeRequestProcessor ::
  "'w requestSeqCapturer \<Rightarrow> 'w requestApplier \<Rightarrow> 'w requestProcessor" where
  "makeRequestProcessor captureSeq applyRequest request w =
     (case captureSeq request w of
        (Panicked p, w1) \<Rightarrow> (Panicked p, w1)
      | (Returned (new, releaseSeq), w1) \<Rightarrow>
          if \<not> new then (Returned (False, None), w1)
          else deferred releaseSeq
            (case applyRequest request w1 of
               (Panicked p, w2) \<Rightarrow> (Panicked p, w2)
             | (Returned (Some err), w2) \<Rightarrow>
                 (Returned (False, Some (''Failed to apply Request: '' @ err)), w2)
             | (Returned None, w2) \<Rightarrow> (Returned (True, None), w2)))"

subsection \<open>makeRequestApplier\<close>

text \<open>
  Modelled from the spec: the function \<open>isPrimary\<close>, which makeRequestApplier calls, is
  not among the sources. The spec gives the primary of a view as \<open>view mod n\<close>, and the
  replica is the primary when its own id is that number. The remainder of Go's unsigned
  integers panics at a zero divisor, where HOL's \<open>mod\<close> returns the dividend.
\<close>

definition primaryId :: "64 word \<Rightarrow> 32 word \<Rightarrow> 64 word outcome" where
  "primaryId view n =
     (if n = 0 then Panicked (RuntimeError ''integer divide by zero'')
      else Returned (view mod ucast n))"

definition isPrimary :: "64 word \<Rightarrow> 32 word \<Rightarrow> 32 word \<Rightarrow> bool outcome" where
  "isPrimary view id' n =
     (case primaryId view n of
        Panicked p \<Rightarrow> Panicked p
      | Returned primary \<Rightarrow> Returned (ucast id' = primary))"

text \<open>
  The applier takes the primary test as its first argument, so that what is proved of the
  applier alone does not rest on the definition above. The Prepare it builds has no UI
  yet: the handler of generated UI messages assigns it.
\<close>

type_synonym 'w viewProvider = "(64 word, 'w) go"
type_synonym 'w generatedUIMessageHandler = "Prepare \<Rightarrow> (unit, 'w) go"

definition makeRequestApplier ::
  "(64 word \<Rightarrow> 32 word \<Rightarrow> 32 word \<Rightarrow> bool outcome) \<Rightarrow> 32 word \<Rightarrow> 32 word \<Rightarrow>
   'w viewProvider \<Rightarrow> 'w generatedUIMessageHandler \<Rightarrow> 'w requestApplier" where
  "makeRequestApplier isPrimary' id' n view handleGeneratedUIMessage request w =
     (case view w of
        (Panicked p, w1) \<Rightarrow> (Panicked p, w1)
      | (Returned v, w1) \<Rightarrow>
          (case isPrimary' v id' n of
             Panicked p \<Rightarrow> (Panicked p, w1)
           | Returned primary \<Rightarrow>
               if primary then
                 (let prepare = \<lparr>Prepare.Msg =
                        \<lparr>View = v, Prepare_M.ReplicaId = id', Request = request\<rparr>,
                      Ui = None\<rparr>
                  in case handleGeneratedUIMessage prepare w1 of
                       (Panicked p, w2) \<Rightarrow> (Panicked p, w2)
                     | (Returned _, w2) \<Rightarrow> (Returned None, w2))
               else (Returned None, w1)))"

subsection \<open>makeRequestExecutor\<close>

text \<open>
  The request executor calls the operation executor and starts a goroutine that receives
  one value from the result channel. The \<open>go\<close> statement is rendered by what the call
  returns: the channel the goroutine waits on and its body, a function of the value
  received. The signer writes into the Reply it is given; it is a function that returns
  the Reply as it leaves it.
\<close>

type_synonym ('ch, 'w) operationExecutor = "bytes \<Rightarrow> ('ch, 'w) go"
type_synonym 'w replicaMessageSigner = "Reply \<Rightarrow> (Reply, 'w) go"
type_synonym 'w generatedMessageHandler = "Reply \<Rightarrow> (unit, 'w) go"

definition makeRequestExecutor_goroutine ::
  "32 word \<Rightarrow> 'w replicaMessageSigner \<Rightarrow> 'w generatedMessageHandler \<Rightarrow> Request \<Rightarrow>
   bytes \<Rightarrow> (unit, 'w) go" where
  "makeRequestExecutor_goroutine id' signer handleGeneratedMessage request result w =
     (let reply = \<lparr>Reply.Msg =
            \<lparr>Reply_M.ReplicaId = id',
             Reply_M.ClientId = Request_M.ClientId (Request.Msg request),
             Reply_M.Seq = Request_M.Seq (Request.Msg request),
             Result = result\<rparr>,
          Reply.Signature = []\<rparr>
      in case signer reply w of
           (Panicked p, w1) \<Rightarrow> (Panicked p, w1)
         | (Returned reply1, w1) \<Rightarrow> handleGeneratedMessage reply1 w1)"

definition makeRequestExecutor ::
  "32 word \<Rightarrow> ('ch, 'w) operationExecutor \<Rightarrow> 'w replicaMessageSigner \<Rightarrow>
   'w generatedMessageHandler \<Rightarrow> Request \<Rightarrow> ('ch \<times> (bytes \<Rightarrow> (unit, 'w) go), 'w) go" where
  "makeRequestExecutor id' executor signer handleGeneratedMessage request w =
     (case executor (Payload (Request.Msg request)) w of
        (Panicked p, w1) \<Rightarrow> (Panicked p, w1)
      | (Returned resultChan, w1) \<Rightarrow>
          (Returned (resultChan,
             makeRequestExecutor_goroutine id' signer handleGeneratedMessage request), w1))"

subsection \<open>makeOperationExecutor\<close>

text \<open>
  The interface api.RequestConsumer, with the method the executor calls. \<open>'c\<close> is the
  state of the consumer and \<open>'ch\<close> the type of result channels.
\<close>

record ('c, 'ch) RequestConsumer =
  Deliver :: "bytes \<Rightarrow> ('ch, 'c) go"

text \<open>
  The executor owns the flag \<open>busy\<close>, which makeOperationExecutor creates as 0. One call
  of the executor, run without interruption, is a function of the flag and the state of
  the consumer. \<open>atomic.SwapUint32\<close> stores 1 and yields the old value; the flag is not
  reset when the call leaves by a panic.
\<close>

definition makeOperationExecutor ::
  "('c, 'ch) RequestConsumer \<Rightarrow> ('ch, 32 word \<times> 'c) operationExecutor" where
  "makeOperationExecutor consumer op w =
     (case w of
        (busy, c) \<Rightarrow>
          (let wasBusy = busy; busy1 = (1 :: 32 word)
           in if wasBusy \<noteq> 0
              then (Panicked (PanicString ''Concurrent operation execution detected''),
                    (busy1, c))
              else (case Deliver consumer op c of
                      (Panicked p, c1) \<Rightarrow> (Panicked p, (busy1, c1))
                    | (Returned resultChan, c1) \<Rightarrow> (Returned resultChan, (0, c1)))))"

subsection \<open>The operation executor entered by several goroutines\<close>

text \<open>
  The steps of one call of the executor, for calls that overlap: the swap of the flag, the
  call of \<open>consumer.Deliver\<close>, the store of 0 into the flag. A goroutine is at one of
  these points; between the swap and the return of Deliver it is inside Deliver. An
  unrecovered panic halts the whole program, so a halted system takes no step.
\<close>

datatype 'ch pc =
    Idle
  | AtSwap bytes
  | InDeliver bytes
  | AtStore 'ch
  | Done 'ch

record ('c, 'ch) system =
  threads :: "'ch pc list"
  busy :: "32 word"
  consumerState :: 'c
  halted :: "panic_value option"

datatype action =
    Invoke nat bytes
  | Step nat

definition outside :: "'ch pc \<Rightarrow> bool" where
  "outside p = (case p of Idle \<Rightarrow> True | Done _ \<Rightarrow> True | _ \<Rightarrow> False)"

definition inDeliver :: "'ch pc \<Rightarrow> bool" where
  "inDeliver p = (case p of InDeliver _ \<Rightarrow> True | _ \<Rightarrow> False)"

definition holdsFlag :: "'ch pc \<Rightarrow> bool" where
  "holdsFlag p = (case p of InDeliver _ \<Rightarrow> True | AtStore _ \<Rightarrow> True | _ \<Rightarrow> False)"

definition exec_step ::
  "('c, 'ch) RequestConsumer \<Rightarrow> action \<Rightarrow> ('c, 'ch) system \<Rightarrow> ('c, 'ch) system option" where
  "exec_step consumer a s =
     (if halted s \<noteq> None then None
      else case a of
        Invoke i op \<Rightarrow>
          if i < length (threads s) \<and> outside (threads s ! i)
          then Some (s\<lparr>threads := (threads s)[i := AtSwap op]\<rparr>)
          else None
      | Step i \<Rightarrow>
          if length (threads s) \<le> i then None
          else (case threads s ! i of
                  AtSwap op \<Rightarrow>
                    (let wasBusy = busy s; s1 = s\<lparr>busy := 1\<rparr>
                     in if wasBusy \<noteq> 0
                        then Some (s1\<lparr>halted :=
                          Some (PanicString ''Concurrent operation execution detected'')\<rparr>)
                        else Some (s1\<lparr>threads := (threads s)[i := InDeliver op]\<rparr>))
                | InDeliver op \<Rightarrow>
                    (case Deliver consumer op (consumerState s) of
                       (Panicked p, c1) \<Rightarrow> Some (s\<lparr>consumerState := c1, halted := Some p\<rparr>)
                     | (Returned resultChan, c1) \<Rightarrow>
                         Some (s\<lparr>consumerState := c1,
                                 threads := (threads s)[i := AtStore resultChan]\<rparr>))
                | AtStore resultChan \<Rightarrow>
                    Some (s\<lparr>busy := 0, threads := (threads s)[i := Done resultChan]\<rparr>)
                | _ \<Rightarrow> None))"

fun run ::
  "('c, 'ch) RequestConsumer \<Rightarrow> action list \<Rightarrow> ('c, 'ch) system \<Rightarrow> ('c, 'ch) system option" where
  "run consumer [] s = Some s"
| "run consumer (a # as) s =
     (case exec_step consumer a s of
        None \<Rightarrow> None
      | Some s' \<Rightarrow> run consumer as s')"

definition initial :: "nat \<Rightarrow> 'c \<Rightarrow> ('c, 'ch) system" where
  "initial k c = \<lparr>threads = replicate k Idle, busy = 0, consumerState = c, halted = None\<rparr>"

subsection \<open>Client state: request sequences and request timer\<close>

text \<open>
  The interface clientstate.State, with the methods the closures below call, and the
  provider that yields the state of a client. A timer callback runs later, in a goroutine
  of the timer; \<open>'e\<close> is the state it runs in.
\<close>

record ('w, 'e) State =
  CaptureRequestSeq :: "64 word \<Rightarrow> (bool \<times> (unit, 'w) go, 'w) go"
  PrepareRequestSeq :: "64 word \<Rightarrow> (bool \<times> error option, 'w) go"
  RetireRequestSeq :: "64 word \<Rightarrow> (bool \<times> error option, 'w) go"
  StartRequestTimer :: "(unit, 'e) go \<Rightarrow> (unit, 'w) go"
  StopRequestTimer :: "(unit, 'w) go"

type_synonym ('w, 'e) Provider = "32 word \<Rightarrow> (('w, 'e) State, 'w) go"

definition makeRequestSeqCapturer :: "('w, 'e) Provider \<Rightarrow> 'w requestSeqCapturer" where
  "makeRequestSeqCapturer provideClientState request w =
     (let clientID = Request_M.ClientId (Request.Msg request);
          seq = Request_M.Seq (Request.Msg request)
      in case provideClientState clientID w of
           (Panicked p, w1) \<Rightarrow> (Panicked p, w1)
         | (Returned state, w1) \<Rightarrow> CaptureRequestSeq state seq w1)"

definition makeRequestSeqPreparer :: "('w, 'e) Provider \<Rightarrow> Request \<Rightarrow> (bool, 'w) go" where
  "makeRequestSeqPreparer provideClientState request w =
     (let clientID = Request_M.ClientId (Request.Msg request);
          seq = Request_M.Seq (Request.Msg request)
      in case provideClientState clientID w of
           (Panicked p, w1) \<Rightarrow> (Panicked p, w1)
         | (Returned state, w1) \<Rightarrow>
             (case PrepareRequestSeq state seq w1 of
                (Panicked p, w2) \<Rightarrow> (Panicked p, w2)
              | (Returned (new, Some err), w2) \<Rightarrow> (Panicked (PanicError err), w2)
              | (Returned (new, None), w2) \<Rightarrow>
                  if \<not> new then (Returned False, w2) else (Returned True, w2)))"

definition makeRequestSeqRetirer :: "('w, 'e) Provider \<Rightarrow> Request \<Rightarrow> (bool, 'w) go" where
  "makeRequestSeqRetirer provideClientState request w =
     (let clientID = Request_M.ClientId (Request.Msg request);
          seq = Request_M.Seq (Request.Msg request)
      in case provideClientState clientID w of
           (Panicked p, w1) \<Rightarrow> (Panicked p, w1)
         | (Returned state, w1) \<Rightarrow>
             (case RetireRequestSeq state seq w1 of
                (Panicked p, w2) \<Rightarrow> (Panicked p, w2)
              | (Returned (new, Some err), w2) \<Rightarrow> (Panicked (PanicError err), w2)
              | (Returned (new, None), w2) \<Rightarrow>
                  if \<not> new then (Returned False, w2) else (Returned True, w2)))"

text \<open>
  The logger, with the method the timer callback calls: a format and its arguments.
\<close>

datatype arg =
    Uint32 "32 word"
  | Uint64 "64 word"

record 'e Logger =
  Warningf :: "string \<Rightarrow> arg list \<Rightarrow> (unit, 'e) go"

type_synonym 'e requestTimeoutHandler = "64 word \<Rightarrow> (unit, 'e) go"

definition makeRequestTimerStarter ::
  "('w, 'e) Provider \<Rightarrow> 'e requestTimeoutHandler \<Rightarrow> 'e Logger \<Rightarrow>
   32 word \<Rightarrow> 64 word \<Rightarrow> (unit, 'w) go" where
  "makeRequestTimerStarter provideClientState handleTimeout logger clientID view w =
     (case provideClientState clientID w of
        (Panicked p, w1) \<Rightarrow> (Panicked p, w1)
      | (Returned state, w1) \<Rightarrow>
          StartRequestTimer state
            (\<lambda>e. case Warningf logger ''Request timer expired: client=%d view=%d''
                         [Uint32 clientID, Uint64 view] e of
                    (Panicked p, e1) \<Rightarrow> (Panicked p, e1)
                  | (Returned _, e1) \<Rightarrow> handleTimeout view e1)
            w1)"

definition makeRequestTimerStopper :: "('w, 'e) Provider \<Rightarrow> 32 word \<Rightarrow> (unit, 'w) go" where
  "makeRequestTimerStopper provideClientState clientID w =
     (case provideClientState clientID w of
        (Panicked p, w1) \<Rightarrow> (Panicked p, w1)
      | (Returned state, w1) \<Rightarrow> StopRequestTimer state w1)"

subsection \<open>The request timer of a client\<close>

text \<open>
  Modelled from the spec: package clientstate, which holds the request timer of a client,
  is not among the sources. The spec gives each client one timer: starting it while one
  runs replaces it, stopping it disarms it, and a timer that fires before it is stopped
  runs the callback it was started with. The state is the armed callbacks, by client,
  and the state \<open>'e\<close> the callbacks run in.
\<close>

type_synonym 'e timers = "32 word \<Rightarrow> (unit, 'e) go option"

definition startRequestTimer :: "32 word \<Rightarrow> (unit, 'e) go \<Rightarrow> (unit, 'e timers \<times> 'e) go" where
  "startRequestTimer clientID callback w =
     (case w of (tm, e) \<Rightarrow> (Returned (), (tm(clientID \<mapsto> callback), e)))"

definition stopRequestTimer :: "32 word \<Rightarrow> (unit, 'e timers \<times> 'e) go" where
  "stopRequestTimer clientID w =
     (case w of (tm, e) \<Rightarrow> (Returned (), (tm(clientID := None), e)))"

definition requestTimerExpires :: "32 word \<Rightarrow> (unit, 'e timers \<times> 'e) go" where
  "requestTimerExpires clientID w =
     (case w of
        (tm, e) \<Rightarrow>
          (case tm clientID of
             None \<Rightarrow> (Returned (), (tm, e))
           | Some callback \<Rightarrow>
               (case callback e of (r, e1) \<Rightarrow> (r, (tm(clientID := None), e1)))))"

text \<open>
  A provider of client states whose timer methods are the ones above; the other methods
  are those of \<open>base\<close>.
\<close>

definition timedProvider ::
  "('e timers \<times> 'e, 'e) State \<Rightarrow> ('e timers \<times> 'e, 'e) Provider" where
  "timedProvider base clientID w =
     (Returned (base\<lparr>StartRequestTimer := startRequestTimer clientID,
                      StopRequestTimer := stopRequestTimer clientID\<rparr>), w)"

subsection \<open>Collaborators that record their calls\<close>

text \<open>
  To run the closures on concrete requests, each collaborator has a stand-in that appends
  the call to a list of events and returns a value fixed beforehand.
\<close>

datatype event =
    CapturedSeq Request
  | ReleasedSeq Request
  | AppliedRequest Request
  | ReadView
  | HandledUIMessage Prepare
  | Executed bytes
  | SignedReply Reply
  | HandledMessage Reply
  | ProvidedClientState "32 word"
  | PreparedSeq "64 word"
  | RetiredSeq "64 word"
  | StartedTimer
  | StoppedTimer
  | Warned string "arg list"
  | HandledTimeout "64 word"

definition rec_releaseSeq :: "Request \<Rightarrow> (unit, event list) go" where
  "rec_releaseSeq request tr = (Returned (), tr @ [ReleasedSeq request])"

definition rec_captureSeq :: "bool \<Rightarrow> event list requestSeqCapturer" where
  "rec_captureSeq new request tr =
     (Returned (new, rec_releaseSeq request), tr @ [CapturedSeq request])"

definition rec_applyRequest :: "error option \<Rightarrow> event list requestApplier" where
  "rec_applyRequest err request tr = (Returned err, tr @ [AppliedRequest request])"

definition rec_view :: "64 word \<Rightarrow> event list viewProvider" where
  "rec_view v tr = (Returned v, tr @ [ReadView])"

definition rec_handleUIMessage :: "event list generatedUIMessageHandler" where
  "rec_handleUIMessage prepare tr = (Returned (), tr @ [HandledUIMessage prepare])"

definition rec_executor :: "nat \<Rightarrow> (nat, event list) operationExecutor" where
  "rec_executor resultChan operation tr = (Returned resultChan, tr @ [Executed operation])"

definition rec_signer :: "bytes \<Rightarrow> event list replicaMessageSigner" where
  "rec_signer signature reply tr =
     (Returned (reply\<lparr>Reply.Signature := signature\<rparr>), tr @ [SignedReply reply])"

definition rec_handleMessage :: "event list generatedMessageHandler" where
  "rec_handleMessage reply tr = (Returned (), tr @ [HandledMessage reply])"

definition rec_state :: "bool \<times> error option \<Rightarrow> (event list, event list) State" where
  "rec_state answer =
     \<lparr>CaptureRequestSeq = (\<lambda>seq tr. (Returned (fst answer, Pair (Returned ())), tr)),
      PrepareRequestSeq = (\<lambda>seq tr. (Returned answer, tr @ [PreparedSeq seq])),
      RetireRequestSeq = (\<lambda>seq tr. (Returned answer, tr @ [RetiredSeq seq])),
      StartRequestTimer = (\<lambda>callback tr. (Returned (), tr @ [StartedTimer])),
      StopRequestTimer = (\<lambda>tr. (Returned (), tr @ [StoppedTimer]))\<rparr>"

definition rec_provider :: "bool \<times> error option \<Rightarrow> (event list, event list) Provider" where
  "rec_provider answer clientID tr =
     (Returned (rec_state answer), tr @ [ProvidedClientState clientID])"

definition rec_logger :: "event list Logger" where
  "rec_logger = \<lparr>Warningf = (\<lambda>format args tr. (Returned (), tr @ [Warned format args]))\<rparr>"

definition rec_handleTimeout :: "event list requestTimeoutHandler" where
  "rec_handleTimeout view tr = (Returned (), tr @ [HandledTimeout view])"

definition timerEvents :: "event list \<Rightarrow> event list" where
  "timerEvents tr = filter (\<lambda>ev. ev = StartedTimer \<or> ev = StoppedTimer) tr"

text \<open>
  A request consumer that hands out the result channel at once and sends the result
  later. Channels are numbered in the order of the deliveries; \<open>resolved\<close> lists the
  channels whose result the host has sent. The deliveries still outstanding are those
  whose channel is not yet resolved.
\<close>

record host =
  delivered :: "bytes list"
  resolved :: "nat list"

definition laterConsumer :: "(host, nat) RequestConsumer" where
  "laterConsumer =
     \<lparr>Deliver = (\<lambda>operation h.
        (Returned (length (delivered h)), h\<lparr>delivered := delivered h @ [operation]\<rparr>))\<rparr>"

definition outstanding :: "host \<Rightarrow> nat list" where
  "outstanding h = filter (\<lambda>ch. ch \<notin> set (resolved h)) [0..<length (delivered h)]"

definition host0 :: host where
  "host0 = \<lparr>delivered = [], resolved = []\<rparr>"

definition request1 :: Request where
  "request1 =
     \<lparr>Request.Msg = \<lparr>Request_M.ClientId = 7, Request_M.Seq = 1, Payload = [1]\<rparr>,
      Request.Signature = []\<rparr>"

text \<open>
  The goroutines that hold the flag, and the invariant that ties the flag to them.
\<close>

definition holders :: "'ch pc list \<Rightarrow> nat" where
  "holders ps = length (filter holdsFlag ps)"

definition flagInv :: "('c, 'ch) system \<Rightarrow> bool" where
  "flagInv s = (holders (threads s) \<le> 1 \<and> (busy s = 0 \<longrightarrow> holders (threads s) = 0))"

text \<open>A client state whose methods do nothing.\<close>

definition idleState :: "('w, 'e) State" where
  "idleState =
     \<lparr>CaptureRequestSeq = (\<lambda>seq w. (Returned (False, Pair (Returned ())), w)),
      PrepareRequestSeq = (\<lambda>seq w. (Returned (False, None), w)),
      RetireRequestSeq = (\<lambda>seq w. (Returned (False, None), w)),
      StartRequestTimer = (\<lambda>callback w. (Returned (), w)),
      StopRequestTimer = (\<lambda>w. (Returned (), w))\<rparr>"

text \<open>
  A second request of the same client, a signer that leaves the Reply as it is and a
  handler that drops it.
\<close>

definition request2 :: Request where
  "request2 =
     \<lparr>Request.Msg = \<lparr>Request_M.ClientId = 7, Request_M.Seq = 2, Payload = [2]\<rparr>,
      Request.Signature = []\<rparr>"

definition plainSigner :: "'w replicaMessageSigner" where
  "plainSigner reply w = (Returned reply, w)"

definition plainHandler :: "'w generatedMessageHandler" where
  "plainHandler reply w = (Returned (), w)"

section \<open>Properties\<close>

subsection \<open>The flag of the operation executor\<close>

lemma filter_list_update_length:
  "i < length xs \<Longrightarrow>
   length (filter P (xs[i := y])) + (if P (xs ! i) then 1 else 0) =
   length (filter P xs) + (if P y then 1 else 0)"
proof (induction xs arbitrary: i)
  case Nil
  then show ?case by simp
next
  case (Cons x xs)
  show ?case
  proof (cases i)
    case 0
    then show ?thesis by simp
  next
    case (Suc k)
    with Cons.prems have "k < length xs" by simp
    from Cons.IH [OF this] Suc show ?thesis by simp
  qed
qed

lemma holders_update:
  "i < length ps \<Longrightarrow>
   holders (ps[i := q]) + (if holdsFlag (ps ! i) then 1 else 0) =
   holders ps + (if holdsFlag q then 1 else 0)"
  unfolding holders_def by (rule filter_list_update_length)

lemma holders_pos:
  assumes "j < length ps" and "holdsFlag (ps ! j)"
  shows "0 < holders ps"
proof -
  from assms have "ps ! j \<in> set (filter holdsFlag ps)" by simp
  then have "filter holdsFlag ps \<noteq> []" by (metis empty_iff empty_set)
  then show ?thesis by (simp add: holders_def)
qed

lemma flagInv_initial: "flagInv (initial k c)"
  by (simp add: flagInv_def initial_def holdsFlag_def holders_def)

lemma exec_step_flagInv:
  assumes "exec_step consumer a s = Some s'" and "flagInv s"
  shows "flagInv s'"
proof (cases a)
  case (Invoke i op)
  with assms(1) have i: "i < length (threads s)" and out: "outside (threads s ! i)"
    and s': "s' = s\<lparr>threads := (threads s)[i := AtSwap op]\<rparr>"
    by (auto simp: exec_step_def split: if_splits)
  from out have nh: "\<not> holdsFlag (threads s ! i)"
    by (auto simp: outside_def holdsFlag_def split: pc.splits)
  from holders_update [OF i, of "AtSwap op"] nh
  have "holders ((threads s)[i := AtSwap op]) = holders (threads s)"
    by (simp add: holdsFlag_def)
  with assms(2) s' show ?thesis by (simp add: flagInv_def)
next
  case (Step i)
  with assms(1) have i: "i < length (threads s)" and nh: "halted s = None"
    by (auto simp: exec_step_def split: if_splits)
  show ?thesis
  proof (cases "threads s ! i")
    case Idle
    with assms(1) Step i show ?thesis by (simp add: exec_step_def split: if_splits)
  next
    case (AtSwap op)
    show ?thesis
    proof (cases "busy s = 0")
      case True
      with assms(1) Step i nh AtSwap
      have s': "s' = s\<lparr>busy := 1, threads := (threads s)[i := InDeliver op]\<rparr>"
        by (simp add: exec_step_def Let_def)
      from True assms(2) have e: "holders (threads s) = 0" by (simp add: flagInv_def)
      from holders_update [OF i, of "InDeliver op"] AtSwap e
      have "holders ((threads s)[i := InDeliver op]) = 1"
        by (simp add: holdsFlag_def)
      with s' show ?thesis by (simp add: flagInv_def)
    next
      case False
      with assms(1) Step i nh AtSwap
      have s': "s' = s\<lparr>busy := 1,
        halted := Some (PanicString ''Concurrent operation execution detected'')\<rparr>"
        by (simp add: exec_step_def Let_def)
      with assms(2) show ?thesis by (simp add: flagInv_def)
    qed
  next
    case (InDeliver op)
    have len: "holders ((threads s)[i := AtStore ch]) = holders (threads s)" for ch
      using holders_update [OF i, of "AtStore ch"] InDeliver by (simp add: holdsFlag_def)
    from InDeliver have "holdsFlag (threads s ! i)" by (simp add: holdsFlag_def)
    from holders_pos [OF i this] assms(2) have b: "busy s \<noteq> 0" by (auto simp: flagInv_def)
    from assms(1) Step i nh InDeliver
    have "(\<exists>c1 p. s' = s\<lparr>consumerState := c1, halted := Some p\<rparr>) \<or>
          (\<exists>c1 ch. s' = s\<lparr>consumerState := c1, threads := (threads s)[i := AtStore ch]\<rparr>)"
      by (auto simp: exec_step_def split: prod.splits outcome.splits)
    with assms(2) len b show ?thesis by (auto simp: flagInv_def)
  next
    case (AtStore ch)
    with assms(1) Step i nh
    have s': "s' = s\<lparr>busy := 0, threads := (threads s)[i := Done ch]\<rparr>"
      by (simp add: exec_step_def)
    from holders_update [OF i, of "Done ch"] AtStore
    have "holders ((threads s)[i := Done ch]) + 1 = holders (threads s)"
      by (simp add: holdsFlag_def)
    with assms(2) have "holders ((threads s)[i := Done ch]) = 0"
      by (simp add: flagInv_def)
    with s' show ?thesis by (simp add: flagInv_def)
  next
    case (Done ch)
    with assms(1) Step i show ?thesis by (simp add: exec_step_def split: if_splits)
  qed
qed

lemma run_flagInv:
  "run consumer as s = Some s' \<Longrightarrow> flagInv s \<Longrightarrow> flagInv s'"
proof (induction as arbitrary: s)
  case Nil
  then show ?case by simp
next
  case (Cons a as)
  then show ?case by (auto split: option.splits dest: exec_step_flagInv)
qed

lemma holder_sets_flag:
  assumes "flagInv s" and "j < length (threads s)" and "holdsFlag (threads s ! j)"
  shows "busy s \<noteq> 0"
  using holders_pos [OF assms(2,3)] assms(1) by (auto simp: flagInv_def)

lemma inDeliver_le_holders:
  "length (filter inDeliver ps) \<le> holders ps"
  unfolding holders_def
  by (induction ps) (auto simp: inDeliver_def holdsFlag_def split: pc.splits)

lemma step_swap_clear:
  assumes "halted s = None" and "busy s = 0" and "i < length (threads s)"
    and "threads s ! i = AtSwap op"
  shows "exec_step consumer (Step i) s =
           Some (s\<lparr>busy := 1, threads := (threads s)[i := InDeliver op]\<rparr>)"
  using assms by (simp add: exec_step_def)

lemma step_swap_busy:
  assumes "halted s = None" and "busy s \<noteq> 0" and "i < length (threads s)"
    and "threads s ! i = AtSwap op"
  shows "exec_step consumer (Step i) s =
           Some (s\<lparr>busy := 1,
                   halted := Some (PanicString ''Concurrent operation execution detected'')\<rparr>)"
  using assms by (simp add: exec_step_def)

lemma step_deliver:
  assumes "halted s = None" and "i < length (threads s)"
    and "threads s ! i = InDeliver op"
    and "Deliver consumer op (consumerState s) = (Returned resultChan, c1)"
  shows "exec_step consumer (Step i) s =
           Some (s\<lparr>consumerState := c1, threads := (threads s)[i := AtStore resultChan]\<rparr>)"
  using assms by (simp add: exec_step_def)

lemma step_store:
  assumes "halted s = None" and "i < length (threads s)"
    and "threads s ! i = AtStore resultChan"
  shows "exec_step consumer (Step i) s =
           Some (s\<lparr>busy := 0, threads := (threads s)[i := Done resultChan]\<rparr>)"
  using assms by (simp add: exec_step_def)

lemma run_one_call:
  assumes "halted s = None" and "busy s = 0" and "i < length (threads s)"
    and "threads s ! i = AtSwap op"
    and "Deliver consumer op (consumerState s) = (Returned resultChan, c1)"
  shows "run consumer [Step i, Step i, Step i] s =
           Some (s\<lparr>busy := 0, consumerState := c1,
                   threads := (threads s)[i := Done resultChan]\<rparr>)"
proof -
  let ?s1 = "s\<lparr>busy := 1, threads := (threads s)[i := InDeliver op]\<rparr>"
  let ?s2 = "?s1\<lparr>consumerState := c1, threads := (threads ?s1)[i := AtStore resultChan]\<rparr>"
  let ?s3 = "?s2\<lparr>busy := 0, threads := (threads ?s2)[i := Done resultChan]\<rparr>"
  have 1: "exec_step consumer (Step i) s = Some ?s1"
    using assms(1-4) by (rule step_swap_clear)
  have 2: "exec_step consumer (Step i) ?s1 = Some ?s2"
    by (rule step_deliver) (use assms in simp_all)
  have 3: "exec_step consumer (Step i) ?s2 = Some ?s3"
    by (rule step_store) (use assms in simp_all)
  have "run consumer [Step i, Step i, Step i] s = Some ?s3"
    by (simp only: run.simps 1 2 3 option.case)
  moreover have "?s3 = s\<lparr>busy := 0, consumerState := c1,
                   threads := (threads s)[i := Done resultChan]\<rparr>"
    by simp
  ultimately show ?thesis by simp
qed

lemma run_holding:
  "run laterConsumer [Invoke 0 [1], Step 0, Invoke 1 [2]] (initial 2 host0) =
     Some \<lparr>threads = [InDeliver [1], AtSwap [2]], busy = 1, consumerState = host0,
           halted = None\<rparr>"
  by (simp add: exec_step_def initial_def outside_def numeral_2_eq_2)

subsection \<open>The error of the request applier\<close>

lemma applier_returns_nil:
  "makeRequestApplier isPrimary' id' n view handleGeneratedUIMessage request w =
     (Returned err, w') \<Longrightarrow> err = None"
  by (auto simp: makeRequestApplier_def Let_def split: outcome.splits prod.splits if_splits)

subsection \<open>The claims\<close>

text \<open>
  C1. The request processor first calls captureSeq. When captureSeq reports the sequence
  as not new, the processor returns new = false with a nil error in the state captureSeq
  left, whatever the applier is: the applier and the release function are not called.
  When captureSeq reports new, the applier runs in the state captureSeq left, before the
  release function; when the applier returns a nil error, the release function runs and
  the processor returns new = true with a nil error.
\<close>

theorem request_processor_capture_then_apply:
  "(captureSeq request w = (Returned (False, releaseSeq), w1) \<longrightarrow>
      makeRequestProcessor captureSeq applyRequest request w = (Returned (False, None), w1))
   \<and> (captureSeq request w = (Returned (True, releaseSeq), w1) \<and>
      applyRequest request w1 = (Returned None, w2) \<and>
      releaseSeq w2 = (Returned (), w3) \<longrightarrow>
      makeRequestProcessor captureSeq applyRequest request w = (Returned (True, None), w3))"
  by (simp add: makeRequestProcessor_def deferred_def)

theorem request_processor_capture_then_apply_witness:
  "rec_captureSeq False request1 [] = (Returned (False, rec_releaseSeq request1), [CapturedSeq request1])
   \<and> makeRequestProcessor (rec_captureSeq False) (rec_applyRequest None) request1 [] =
       (Returned (False, None), [CapturedSeq request1])
   \<and> rec_captureSeq True request1 [] = (Returned (True, rec_releaseSeq request1), [CapturedSeq request1])
   \<and> rec_applyRequest None request1 [CapturedSeq request1] =
       (Returned None, [CapturedSeq request1, AppliedRequest request1])
   \<and> rec_releaseSeq request1 [CapturedSeq request1, AppliedRequest request1] =
       (Returned (), [CapturedSeq request1, AppliedRequest request1, ReleasedSeq request1])
   \<and> makeRequestProcessor (rec_captureSeq True) (rec_applyRequest None) request1 [] =
       (Returned (True, None),
        [CapturedSeq request1, AppliedRequest request1, ReleasedSeq request1])"
proof -
  have c0: "rec_captureSeq False request1 [] =
      (Returned (False, rec_releaseSeq request1), [CapturedSeq request1])"
    by (simp add: rec_captureSeq_def)
  have c1: "rec_captureSeq True request1 [] =
      (Returned (True, rec_releaseSeq request1), [CapturedSeq request1])"
    by (simp add: rec_captureSeq_def)
  have a: "rec_applyRequest None request1 [CapturedSeq request1] =
      (Returned None, [CapturedSeq request1, AppliedRequest request1])"
    by (simp add: rec_applyRequest_def)
  have r: "rec_releaseSeq request1 [CapturedSeq request1, AppliedRequest request1] =
      (Returned (), [CapturedSeq request1, AppliedRequest request1, ReleasedSeq request1])"
    by (simp add: rec_releaseSeq_def)
  from request_processor_capture_then_apply
    [of "rec_captureSeq False" request1 "[]" "rec_releaseSeq request1" "[CapturedSeq request1]"
        "rec_applyRequest None"] c0
  have p0: "makeRequestProcessor (rec_captureSeq False) (rec_applyRequest None) request1 [] =
       (Returned (False, None), [CapturedSeq request1])"
    by blast
  from request_processor_capture_then_apply
    [of "rec_captureSeq True" request1 "[]" "rec_releaseSeq request1" "[CapturedSeq request1]"
        "rec_applyRequest None" "[CapturedSeq request1, AppliedRequest request1]"
        "[CapturedSeq request1, AppliedRequest request1, ReleasedSeq request1]"] c1 a r
  have p1: "makeRequestProcessor (rec_captureSeq True) (rec_applyRequest None) request1 [] =
       (Returned (True, None),
        [CapturedSeq request1, AppliedRequest request1, ReleasedSeq request1])"
    by blast
  from c0 p0 c1 a r p1 show ?thesis by blast
qed

text \<open>
  C2. With n replicas (n not 0), the request applier reads the current view; when the
  replica's own id is the primary of that view (view mod n), it builds a Prepare with that
  view, its own id and the Request, hands it to the handler of generated UI messages and,
  when the handler returns, returns a nil error; when the replica is not the primary, it
  returns a nil error in the state the view provider left, so no message is produced.
\<close>

theorem request_applier_prepare_iff_primary:
  assumes "n \<noteq> 0" and "view w = (Returned v, w1)"
  shows "(ucast id' = v mod ucast n \<and>
          handleGeneratedUIMessage
            \<lparr>Prepare.Msg = \<lparr>View = v, Prepare_M.ReplicaId = id', Request = request\<rparr>,
             Ui = None\<rparr> w1 = (Returned (), w2) \<longrightarrow>
          makeRequestApplier isPrimary id' n view handleGeneratedUIMessage request w =
            (Returned None, w2))
       \<and> (ucast id' \<noteq> v mod ucast n \<longrightarrow>
          makeRequestApplier isPrimary id' n view handleGeneratedUIMessage request w =
            (Returned None, w1))"
  using assms by (simp add: makeRequestApplier_def isPrimary_def primaryId_def)

theorem request_applier_prepare_iff_primary_witness:
  "(3::32 word) \<noteq> 0
   \<and> rec_view 3 [] = (Returned 3, [ReadView])
   \<and> ucast (0::32 word) = (3::64 word) mod ucast (3::32 word)
   \<and> makeRequestApplier isPrimary 0 3 (rec_view 3) rec_handleUIMessage request1 [] =
       (Returned None,
        [ReadView,
         HandledUIMessage
           \<lparr>Prepare.Msg = \<lparr>View = 3, Prepare_M.ReplicaId = 0, Request = request1\<rparr>,
            Ui = None\<rparr>])
   \<and> ucast (1::32 word) \<noteq> (3::64 word) mod ucast (3::32 word)
   \<and> makeRequestApplier isPrimary 1 3 (rec_view 3) rec_handleUIMessage request1 [] =
       (Returned None, [ReadView])"
proof -
  have n: "(3::32 word) \<noteq> 0" by simp
  have v: "rec_view 3 [] = (Returned 3, [ReadView])" by (simp add: rec_view_def)
  have p: "ucast (0::32 word) = (3::64 word) mod ucast (3::32 word)" by simp
  have b: "ucast (1::32 word) \<noteq> (3::64 word) mod ucast (3::32 word)" by simp
  have h: "rec_handleUIMessage
      \<lparr>Prepare.Msg = \<lparr>View = 3, Prepare_M.ReplicaId = 0, Request = request1\<rparr>, Ui = None\<rparr>
      [ReadView] =
      (Returned (), [ReadView, HandledUIMessage
           \<lparr>Prepare.Msg = \<lparr>View = 3, Prepare_M.ReplicaId = 0, Request = request1\<rparr>,
            Ui = None\<rparr>])"
    by (simp add: rec_handleUIMessage_def)
  from request_applier_prepare_iff_primary
    [where n = 3 and view = "rec_view 3" and w = "[]" and v = 3 and ?w1.0 = "[ReadView]"
       and id' = 0 and handleGeneratedUIMessage = rec_handleUIMessage and request = request1,
     OF n v] p h
  have 1: "makeRequestApplier isPrimary 0 3 (rec_view 3) rec_handleUIMessage request1 [] =
       (Returned None,
        [ReadView,
         HandledUIMessage
           \<lparr>Prepare.Msg = \<lparr>View = 3, Prepare_M.ReplicaId = 0, Request = request1\<rparr>,
            Ui = None\<rparr>])"
    by blast
  from request_applier_prepare_iff_primary
    [where n = 3 and view = "rec_view 3" and w = "[]" and v = 3 and ?w1.0 = "[ReadView]"
       and id' = 1 and handleGeneratedUIMessage = rec_handleUIMessage and request = request1,
     OF n v] b
  have 2: "makeRequestApplier isPrimary 1 3 (rec_view 3) rec_handleUIMessage request1 [] =
       (Returned None, [ReadView])"
    by blast
  from n v p 1 b 2 show ?thesis by blast
qed

text \<open>
  C3. An entry into the operation executor that finds the flag set panics with
  "Concurrent operation execution detected" and does not call the consumer; this is what
  happens, in every state the interleaved system can reach, to a goroutine that enters
  while another one is between its swap and its store of the flag. An entry that finds
  the flag clear takes the flag, delivers the operation to the consumer, clears the flag
  and returns the consumer's result channel.
\<close>

theorem operation_executor_busy_guard:
  "(busy0 \<noteq> 0 \<longrightarrow>
      makeOperationExecutor consumer op (busy0, c) =
        (Panicked (PanicString ''Concurrent operation execution detected''), (1, c)))
   \<and> (Deliver consumer op c = (Returned resultChan, c1) \<longrightarrow>
      makeOperationExecutor consumer op (0, c) = (Returned resultChan, (0, c1)))
   \<and> (run consumer sched (initial k c0) = Some s \<and> halted s = None \<and>
      j < length (threads s) \<and> holdsFlag (threads s ! j) \<and>
      i < length (threads s) \<and> threads s ! i = AtSwap op \<longrightarrow>
      exec_step consumer (Step i) s =
        Some (s\<lparr>busy := 1,
                halted := Some (PanicString ''Concurrent operation execution detected'')\<rparr>))
   \<and> (halted s = None \<and> busy s = 0 \<and> i < length (threads s) \<and> threads s ! i = AtSwap op \<and>
      Deliver consumer op (consumerState s) = (Returned resultChan, c1) \<longrightarrow>
      run consumer [Step i, Step i, Step i] s =
        Some (s\<lparr>busy := 0, consumerState := c1,
                threads := (threads s)[i := Done resultChan]\<rparr>))"
proof (intro conjI impI)
  assume "busy0 \<noteq> 0"
  then show "makeOperationExecutor consumer op (busy0, c) =
        (Panicked (PanicString ''Concurrent operation execution detected''), (1, c))"
    by (simp add: makeOperationExecutor_def)
next
  assume "Deliver consumer op c = (Returned resultChan, c1)"
  then show "makeOperationExecutor consumer op (0, c) = (Returned resultChan, (0, c1))"
    by (simp add: makeOperationExecutor_def)
next
  assume a: "run consumer sched (initial k c0) = Some s \<and> halted s = None \<and>
      j < length (threads s) \<and> holdsFlag (threads s ! j) \<and>
      i < length (threads s) \<and> threads s ! i = AtSwap op"
  then have r: "run consumer sched (initial k c0) = Some s" by simp
  from run_flagInv [OF r flagInv_initial] have inv: "flagInv s" .
  from a have j: "j < length (threads s)" and h: "holdsFlag (threads s ! j)" by simp_all
  from holder_sets_flag [OF inv j h] have b: "busy s \<noteq> 0" .
  from a have "halted s = None" and "i < length (threads s)" and "threads s ! i = AtSwap op"
    by simp_all
  from step_swap_busy [OF this(1) b this(2,3)]
  show "exec_step consumer (Step i) s =
        Some (s\<lparr>busy := 1,
                halted := Some (PanicString ''Concurrent operation execution detected'')\<rparr>)" .
next
  assume a: "halted s = None \<and> busy s = 0 \<and> i < length (threads s) \<and>
      threads s ! i = AtSwap op \<and>
      Deliver consumer op (consumerState s) = (Returned resultChan, c1)"
  then have "halted s = None" and "busy s = 0" and "i < length (threads s)"
    and "threads s ! i = AtSwap op"
    and "Deliver consumer op (consumerState s) = (Returned resultChan, c1)"
    by simp_all
  then show "run consumer [Step i, Step i, Step i] s =
        Some (s\<lparr>busy := 0, consumerState := c1,
                threads := (threads s)[i := Done resultChan]\<rparr>)"
    by (rule run_one_call)
qed

theorem operation_executor_busy_guard_witness:
  "makeOperationExecutor laterConsumer [2] (1, host0) =
     (Panicked (PanicString ''Concurrent operation execution detected''), (1, host0))
   \<and> makeOperationExecutor laterConsumer [1] (0, host0) =
     (Returned 0, (0, \<lparr>delivered = [[1]], resolved = []\<rparr>))
   \<and> run laterConsumer [Invoke 0 [1], Step 0, Invoke 1 [2]] (initial 2 host0) =
     Some \<lparr>threads = [InDeliver [1], AtSwap [2]], busy = 1, consumerState = host0,
           halted = None\<rparr>
   \<and> exec_step laterConsumer (Step 1)
       \<lparr>threads = [InDeliver [1], AtSwap [2]], busy = 1, consumerState = host0,
        halted = None\<rparr> =
     Some \<lparr>threads = [InDeliver [1], AtSwap [2]], busy = 1, consumerState = host0,
           halted = Some (PanicString ''Concurrent operation execution detected'')\<rparr>
   \<and> run laterConsumer [Step 0, Step 0, Step 0]
       \<lparr>threads = [AtSwap [1], Idle], busy = 0, consumerState = host0, halted = None\<rparr> =
     Some \<lparr>threads = [Done 0, Idle], busy = 0,
           consumerState = \<lparr>delivered = [[1]], resolved = []\<rparr>, halted = None\<rparr>"
proof -
  let ?s = "\<lparr>threads = [InDeliver [1], AtSwap [2]], busy = 1, consumerState = host0,
           halted = None\<rparr> :: (host, nat) system"
  let ?t = "\<lparr>threads = [AtSwap [1], Idle], busy = 0, consumerState = host0,
           halted = None\<rparr> :: (host, nat) system"
  have d: "Deliver laterConsumer [1] host0 = (Returned 0, \<lparr>delivered = [[1]], resolved = []\<rparr>)"
    by (simp add: laterConsumer_def host0_def)
  have r: "run laterConsumer [Invoke 0 [1], Step 0, Invoke 1 [2]] (initial 2 host0) = Some ?s"
    by (rule run_holding)
  have 1: "makeOperationExecutor laterConsumer [2] (1, host0) =
     (Panicked (PanicString ''Concurrent operation execution detected''), (1, host0))"
    using operation_executor_busy_guard
      [where ?busy0.0 = 1 and consumer = laterConsumer and op = "[2]" and c = host0] by simp
  have 2: "makeOperationExecutor laterConsumer [1] (0, host0) =
     (Returned 0, (0, \<lparr>delivered = [[1]], resolved = []\<rparr>))"
    using operation_executor_busy_guard
      [where consumer = laterConsumer and op = "[1]" and c = host0 and resultChan = 0
         and ?c1.0 = "\<lparr>delivered = [[1]], resolved = []\<rparr>"] d by blast
  have 3: "exec_step laterConsumer (Step 1) ?s =
     Some (?s\<lparr>busy := 1,
              halted := Some (PanicString ''Concurrent operation execution detected'')\<rparr>)"
    using operation_executor_busy_guard
      [where consumer = laterConsumer and op = "[2]"
         and sched = "[Invoke 0 [1], Step 0, Invoke 1 [2]]" and k = 2 and ?c0.0 = host0
         and s = ?s and j = 0 and i = 1] r
    by (simp add: holdsFlag_def)
  have 4: "run laterConsumer [Step 0, Step 0, Step 0] ?t =
     Some (?t\<lparr>busy := 0, consumerState := \<lparr>delivered = [[1]], resolved = []\<rparr>,
              threads := (threads ?t)[0 := Done 0]\<rparr>)"
    using operation_executor_busy_guard
      [where consumer = laterConsumer and op = "[1]" and resultChan = 0
         and ?c1.0 = "\<lparr>delivered = [[1]], resolved = []\<rparr>" and s = ?t and i = 0] d
    by simp
  from 1 2 r 3 4 show ?thesis by simp
qed

text \<open>
  C4, as stated, fails. With a consumer that sends its results later, the first call of
  the executor returns channel 0, which stays unresolved; the second call is not held
  back: it delivers its operation and returns channel 1, and two deliveries are then
  outstanding, not at most one.
\<close>

theorem second_delivery_while_first_outstanding:
  "fst (makeOperationExecutor laterConsumer [1] (0, host0)) = Returned 0
   \<and> outstanding (snd (snd (makeOperationExecutor laterConsumer [1] (0, host0)))) = [0]
   \<and> fst (makeOperationExecutor laterConsumer [2]
        (snd (makeOperationExecutor laterConsumer [1] (0, host0)))) = Returned 1
   \<and> outstanding (snd (snd (makeOperationExecutor laterConsumer [2]
        (snd (makeOperationExecutor laterConsumer [1] (0, host0)))))) = [0, 1]
   \<and> \<not> length (outstanding (snd (snd (makeOperationExecutor laterConsumer [2]
        (snd (makeOperationExecutor laterConsumer [1] (0, host0))))))) \<le> 1"
  by (simp add: makeOperationExecutor_def laterConsumer_def host0_def outstanding_def)

text \<open>
  The request executor does not wait for a result either: it returns as soon as the
  goroutine is started. Two requests executed one after the other give two deliveries,
  the second one while the first result channel is unresolved.
\<close>

lemma request_executor_does_not_await_result:
  "map_outcome fst (fst (makeRequestExecutor 0 (makeOperationExecutor laterConsumer)
      plainSigner plainHandler request1 (0, host0))) = Returned 0
   \<and> snd (makeRequestExecutor 0 (makeOperationExecutor laterConsumer)
      plainSigner plainHandler request1 (0, host0)) =
      (0, \<lparr>delivered = [[1]], resolved = []\<rparr>)
   \<and> map_outcome fst (fst (makeRequestExecutor 0 (makeOperationExecutor laterConsumer)
      plainSigner plainHandler request2 (0, \<lparr>delivered = [[1]], resolved = []\<rparr>))) =
      Returned 1
   \<and> snd (makeRequestExecutor 0 (makeOperationExecutor laterConsumer)
      plainSigner plainHandler request2 (0, \<lparr>delivered = [[1]], resolved = []\<rparr>)) =
      (0, \<lparr>delivered = [[1], [2]], resolved = []\<rparr>)
   \<and> outstanding \<lparr>delivered = [[1], [2]], resolved = []\<rparr> = [0, 1]"
  by (simp add: makeRequestExecutor_def makeOperationExecutor_def laterConsumer_def
      host0_def outstanding_def request1_def request2_def)

text \<open>
  C4, amended. In every state the interleaved system reaches from its initial state, at
  most one goroutine is inside \<open>consumer.Deliver\<close> (has called it and not yet got the
  result channel back).
\<close>

theorem at_most_one_inside_Deliver:
  assumes "run consumer sched (initial k c) = Some s"
  shows "length (filter inDeliver (threads s)) \<le> 1"
proof -
  from run_flagInv [OF assms flagInv_initial] have "holders (threads s) \<le> 1"
    by (simp add: flagInv_def)
  with inDeliver_le_holders [of "threads s"] show ?thesis by simp
qed

theorem at_most_one_inside_Deliver_witness:
  "run laterConsumer [Invoke 0 [1], Step 0, Invoke 1 [2]] (initial 2 host0) =
     Some \<lparr>threads = [InDeliver [1], AtSwap [2]], busy = 1, consumerState = host0,
           halted = None\<rparr>
   \<and> length (filter inDeliver [InDeliver [1], AtSwap [2 :: 8 word] :: nat pc]) \<le> 1"
proof -
  have r: "run laterConsumer [Invoke 0 [1], Step 0, Invoke 1 [2]] (initial 2 host0) =
     Some \<lparr>threads = [InDeliver [1], AtSwap [2]], busy = 1, consumerState = host0,
           halted = None\<rparr>"
    by (rule run_holding)
  from at_most_one_inside_Deliver [OF r] r show ?thesis by simp
qed

text \<open>
  C5. When the client state returns from PrepareRequestSeq (RetireRequestSeq), the request
  sequence preparer (retirer) panics with the reported error when there is one, and
  otherwise returns the flag new that the client state reported.
\<close>

theorem seq_preparer_retirer_panic_iff_error:
  assumes "provideClientState (Request_M.ClientId (Request.Msg request)) w = (Returned state, w1)"
  shows "(PrepareRequestSeq state (Request_M.Seq (Request.Msg request)) w1 =
            (Returned (new, err), w2) \<longrightarrow>
          makeRequestSeqPreparer provideClientState request w =
            (case err of
               Some e \<Rightarrow> (Panicked (PanicError e), w2)
             | None \<Rightarrow> (Returned new, w2)))
       \<and> (RetireRequestSeq state (Request_M.Seq (Request.Msg request)) w1 =
            (Returned (new, err), w2) \<longrightarrow>
          makeRequestSeqRetirer provideClientState request w =
            (case err of
               Some e \<Rightarrow> (Panicked (PanicError e), w2)
             | None \<Rightarrow> (Returned new, w2)))"
  using assms
  by (auto simp: makeRequestSeqPreparer_def makeRequestSeqRetirer_def split: option.splits)

theorem seq_preparer_retirer_panic_iff_error_witness:
  "rec_provider (True, None) 7 [] =
     (Returned (rec_state (True, None)), [ProvidedClientState 7])
   \<and> PrepareRequestSeq (rec_state (True, None)) 1 [ProvidedClientState 7] =
     (Returned (True, None), [ProvidedClientState 7, PreparedSeq 1])
   \<and> makeRequestSeqPreparer (rec_provider (True, None)) request1 [] =
     (Returned True, [ProvidedClientState 7, PreparedSeq 1])
   \<and> makeRequestSeqPreparer (rec_provider (False, None)) request1 [] =
     (Returned False, [ProvidedClientState 7, PreparedSeq 1])
   \<and> RetireRequestSeq (rec_state (False, Some ''not prepared'')) 1 [ProvidedClientState 7] =
     (Returned (False, Some ''not prepared''), [ProvidedClientState 7, RetiredSeq 1])
   \<and> makeRequestSeqRetirer (rec_provider (False, Some ''not prepared'')) request1 [] =
     (Panicked (PanicError ''not prepared''), [ProvidedClientState 7, RetiredSeq 1])"
proof -
  have c: "Request_M.ClientId (Request.Msg request1) = 7"
    and q: "Request_M.Seq (Request.Msg request1) = 1"
    by (simp_all add: request1_def)
  have p: "rec_provider a (Request_M.ClientId (Request.Msg request1)) [] =
      (Returned (rec_state a), [ProvidedClientState 7])" for a
    by (simp add: rec_provider_def c)
  have s1: "PrepareRequestSeq (rec_state a) (Request_M.Seq (Request.Msg request1))
      [ProvidedClientState 7] = (Returned (fst a, snd a), [ProvidedClientState 7, PreparedSeq 1])"
    for a
    by (simp add: rec_state_def q)
  have s2: "RetireRequestSeq (rec_state a) (Request_M.Seq (Request.Msg request1))
      [ProvidedClientState 7] = (Returned (fst a, snd a), [ProvidedClientState 7, RetiredSeq 1])"
    for a
    by (simp add: rec_state_def q)
  from seq_preparer_retirer_panic_iff_error
    [where provideClientState = "rec_provider (True, None)" and request = request1 and w = "[]"
       and state = "rec_state (True, None)" and ?w1.0 = "[ProvidedClientState 7]",
     OF p [of "(True, None)"]] s1 [of "(True, None)"]
  have 1: "makeRequestSeqPreparer (rec_provider (True, None)) request1 [] =
     (Returned True, [ProvidedClientState 7, PreparedSeq 1])"
    by fastforce
  from seq_preparer_retirer_panic_iff_error
    [where provideClientState = "rec_provider (False, None)" and request = request1 and w = "[]"
       and state = "rec_state (False, None)" and ?w1.0 = "[ProvidedClientState 7]",
     OF p [of "(False, None)"]] s1 [of "(False, None)"]
  have 2: "makeRequestSeqPreparer (rec_provider (False, None)) request1 [] =
     (Returned False, [ProvidedClientState 7, PreparedSeq 1])"
    by fastforce
  from seq_preparer_retirer_panic_iff_error
    [where provideClientState = "rec_provider (False, Some ''not prepared'')" and request = request1 and w = "[]"
       and state = "rec_state (False, Some ''not prepared'')" and ?w1.0 = "[ProvidedClientState 7]",
     OF p [of "(False, Some ''not prepared'')"]]
    s2 [of "(False, Some ''not prepared'')"]
  have 3: "makeRequestSeqRetirer (rec_provider (False, Some ''not prepared'')) request1 [] =
     (Panicked (PanicError ''not prepared''), [ProvidedClientState 7, RetiredSeq 1])"
    by fastforce
  from p [of "(True, None)"] s1 [of "(True, None)"] 1 2 s2 [of "(False, Some ''not prepared'')"] 3
  show ?thesis by (simp add: c q)
qed

text \<open>
  C6. The timer starter hands to StartRequestTimer of the client's state a callback that,
  whenever it runs, logs the warning with the client id and the view the timer was
  started with and then calls the timeout handler with that view. With the request timer
  of the spec, a timer that expires after it was started, in whatever state the callbacks
  then run, logs the warning and calls the timeout handler with the view given at the
  start.
\<close>

theorem request_timer_callback_captures_view:
  "(provideClientState clientID w = (Returned state, w1) \<longrightarrow>
      (\<exists>callback.
         makeRequestTimerStarter provideClientState handleTimeout logger clientID view w =
           StartRequestTimer state callback w1
         \<and> (\<forall>e e1. Warningf logger ''Request timer expired: client=%d view=%d''
                     [Uint32 clientID, Uint64 view] e = (Returned (), e1) \<longrightarrow>
                   callback e = handleTimeout view e1)))
   \<and> (\<exists>tm1.
         makeRequestTimerStarter (timedProvider base) handleTimeout logger clientID view (tm, e0) =
           (Returned (), (tm1, e0))
         \<and> (\<forall>e e1. Warningf logger ''Request timer expired: client=%d view=%d''
                     [Uint32 clientID, Uint64 view] e = (Returned (), e1) \<longrightarrow>
                   requestTimerExpires clientID (tm1, e) =
                     (case handleTimeout view e1 of
                        (r, e2) \<Rightarrow> (r, (tm1(clientID := None), e2)))))"
proof (intro conjI impI)
  let ?cb = "\<lambda>e. case Warningf logger ''Request timer expired: client=%d view=%d''
                         [Uint32 clientID, Uint64 view] e of
                    (Panicked p, e1) \<Rightarrow> (Panicked p, e1)
                  | (Returned _, e1) \<Rightarrow> handleTimeout view e1"
  {
    assume "provideClientState clientID w = (Returned state, w1)"
    then have "makeRequestTimerStarter provideClientState handleTimeout logger clientID view w =
           StartRequestTimer state ?cb w1"
      by (simp add: makeRequestTimerStarter_def)
    moreover have "\<forall>e e1. Warningf logger ''Request timer expired: client=%d view=%d''
                     [Uint32 clientID, Uint64 view] e = (Returned (), e1) \<longrightarrow>
                   ?cb e = handleTimeout view e1"
      by simp
    ultimately show "\<exists>callback.
         makeRequestTimerStarter provideClientState handleTimeout logger clientID view w =
           StartRequestTimer state callback w1
         \<and> (\<forall>e e1. Warningf logger ''Request timer expired: client=%d view=%d''
                     [Uint32 clientID, Uint64 view] e = (Returned (), e1) \<longrightarrow>
                   callback e = handleTimeout view e1)"
      by blast
  }
  have "makeRequestTimerStarter (timedProvider base) handleTimeout logger clientID view (tm, e0) =
           (Returned (), (tm(clientID \<mapsto> ?cb), e0))"
    by (simp add: makeRequestTimerStarter_def timedProvider_def startRequestTimer_def)
  moreover have "\<forall>e e1. Warningf logger ''Request timer expired: client=%d view=%d''
                     [Uint32 clientID, Uint64 view] e = (Returned (), e1) \<longrightarrow>
                   requestTimerExpires clientID (tm(clientID \<mapsto> ?cb), e) =
                     (case handleTimeout view e1 of
                        (r, e2) \<Rightarrow> (r, ((tm(clientID \<mapsto> ?cb))(clientID := None), e2)))"
    by (simp add: requestTimerExpires_def)
  ultimately show "\<exists>tm1.
         makeRequestTimerStarter (timedProvider base) handleTimeout logger clientID view (tm, e0) =
           (Returned (), (tm1, e0))
         \<and> (\<forall>e e1. Warningf logger ''Request timer expired: client=%d view=%d''
                     [Uint32 clientID, Uint64 view] e = (Returned (), e1) \<longrightarrow>
                   requestTimerExpires clientID (tm1, e) =
                     (case handleTimeout view e1 of
                        (r, e2) \<Rightarrow> (r, (tm1(clientID := None), e2))))"
    by blast
qed

theorem request_timer_callback_captures_view_witness:
  "rec_provider (False, None) 7 [] =
     (Returned (rec_state (False, None)), [ProvidedClientState 7])
   \<and> makeRequestTimerStarter (rec_provider (False, None)) rec_handleTimeout rec_logger 7 3 [] =
     (Returned (), [ProvidedClientState 7, StartedTimer])
   \<and> Warningf rec_logger ''Request timer expired: client=%d view=%d'' [Uint32 7, Uint64 3] [] =
     (Returned (), [Warned ''Request timer expired: client=%d view=%d'' [Uint32 7, Uint64 3]])
   \<and> fst (makeRequestTimerStarter (timedProvider idleState) rec_handleTimeout rec_logger 7 3
          (Map.empty, [])) = Returned ()
   \<and> fst (requestTimerExpires 7
          (fst (snd (makeRequestTimerStarter (timedProvider idleState) rec_handleTimeout
             rec_logger 7 3 (Map.empty, []))), [])) = Returned ()
   \<and> snd (snd (requestTimerExpires 7
          (fst (snd (makeRequestTimerStarter (timedProvider idleState) rec_handleTimeout
             rec_logger 7 3 (Map.empty, []))), []))) =
     [Warned ''Request timer expired: client=%d view=%d'' [Uint32 7, Uint64 3],
      HandledTimeout 3]"
proof -
  let ?X = "makeRequestTimerStarter (timedProvider idleState) rec_handleTimeout rec_logger 7 3
          (Map.empty, [])"
  note T = request_timer_callback_captures_view
    [where provideClientState = "rec_provider (False, None)" and clientID = 7 and w = "[]"
       and state = "rec_state (False, None)" and ?w1.0 = "[ProvidedClientState 7]"
       and handleTimeout = rec_handleTimeout and logger = rec_logger and view = 3
       and base = idleState and tm = Map.empty and ?e0.0 = "[]"]
  have p: "rec_provider (False, None) 7 [] =
     (Returned (rec_state (False, None)), [ProvidedClientState 7])"
    by (simp add: rec_provider_def)
  have l: "Warningf rec_logger ''Request timer expired: client=%d view=%d''
       [Uint32 7, Uint64 3] [] =
     (Returned (), [Warned ''Request timer expired: client=%d view=%d'' [Uint32 7, Uint64 3]])"
    by (simp add: rec_logger_def)
  from T p obtain callback where
    "makeRequestTimerStarter (rec_provider (False, None)) rec_handleTimeout rec_logger 7 3 [] =
       StartRequestTimer (rec_state (False, None)) callback [ProvidedClientState 7]"
    by blast
  then have 1: "makeRequestTimerStarter (rec_provider (False, None)) rec_handleTimeout
       rec_logger 7 3 [] = (Returned (), [ProvidedClientState 7, StartedTimer])"
    by (simp add: rec_state_def)
  from T obtain tm1 where x: "?X = (Returned (), (tm1, []))"
    and e: "\<forall>e e1. Warningf rec_logger ''Request timer expired: client=%d view=%d''
                     [Uint32 7, Uint64 3] e = (Returned (), e1) \<longrightarrow>
                   requestTimerExpires 7 (tm1, e) =
                     (case rec_handleTimeout 3 e1 of
                        (r, e2) \<Rightarrow> (r, (tm1(7 := None), e2)))"
    by blast
  from e l have "requestTimerExpires 7 (tm1, []) =
      (case rec_handleTimeout 3
         [Warned ''Request timer expired: client=%d view=%d'' [Uint32 7, Uint64 3]] of
         (r, e2) \<Rightarrow> (r, (tm1(7 := None), e2)))"
    by blast
  then have 2: "requestTimerExpires 7 (tm1, []) =
      (Returned (), (tm1(7 := None),
        [Warned ''Request timer expired: client=%d view=%d'' [Uint32 7, Uint64 3],
         HandledTimeout 3]))"
    by (simp add: rec_handleTimeout_def)
  from p 1 l x 2 show ?thesis by simp
qed

text \<open>
  C7. The request executor passes the payload of the Request to the operation executor
  and leaves a goroutine waiting on the result channel. For every result received, the
  goroutine builds the Reply with the replica's own id, the client id and sequence number
  of the Request and the result, gives it to the signer, and hands the Reply as the signer
  left it to the handler of generated messages.
\<close>

theorem request_executor_reply:
  assumes "executor (Payload (Request.Msg request)) w = (Returned resultChan, w1)"
  shows "makeRequestExecutor id' executor signer handleGeneratedMessage request w =
           (Returned (resultChan,
              makeRequestExecutor_goroutine id' signer handleGeneratedMessage request), w1)
       \<and> (\<forall>result v reply1 v1.
            signer \<lparr>Reply.Msg =
                      \<lparr>Reply_M.ReplicaId = id',
                       Reply_M.ClientId = Request_M.ClientId (Request.Msg request),
                       Reply_M.Seq = Request_M.Seq (Request.Msg request),
                       Result = result\<rparr>,
                    Reply.Signature = []\<rparr> v = (Returned reply1, v1) \<longrightarrow>
            makeRequestExecutor_goroutine id' signer handleGeneratedMessage request result v =
              handleGeneratedMessage reply1 v1)"
  using assms by (simp add: makeRequestExecutor_def makeRequestExecutor_goroutine_def)

theorem request_executor_reply_witness:
  "rec_executor 5 (Payload (Request.Msg request1)) [] = (Returned 5, [Executed [1]])
   \<and> makeRequestExecutor 2 (rec_executor 5) (rec_signer [9]) rec_handleMessage request1 [] =
     (Returned (5, makeRequestExecutor_goroutine 2 (rec_signer [9]) rec_handleMessage request1),
      [Executed [1]])
   \<and> makeRequestExecutor_goroutine 2 (rec_signer [9]) rec_handleMessage request1 [4]
       [Executed [1]] =
     (Returned (),
      [Executed [1],
       SignedReply \<lparr>Reply.Msg = \<lparr>Reply_M.ReplicaId = 2, Reply_M.ClientId = 7,
                      Reply_M.Seq = 1, Result = [4]\<rparr>, Reply.Signature = []\<rparr>,
       HandledMessage \<lparr>Reply.Msg = \<lparr>Reply_M.ReplicaId = 2, Reply_M.ClientId = 7,
                      Reply_M.Seq = 1, Result = [4]\<rparr>, Reply.Signature = [9]\<rparr>])"
proof -
  let ?r0 = "\<lparr>Reply.Msg = \<lparr>Reply_M.ReplicaId = 2, Reply_M.ClientId = 7,
                      Reply_M.Seq = 1, Result = [4]\<rparr>, Reply.Signature = []\<rparr>"
  let ?r1 = "\<lparr>Reply.Msg = \<lparr>Reply_M.ReplicaId = 2, Reply_M.ClientId = 7,
                      Reply_M.Seq = 1, Result = [4]\<rparr>, Reply.Signature = [9]\<rparr>"
  have x: "rec_executor 5 (Payload (Request.Msg request1)) [] = (Returned 5, [Executed [1]])"
    by (simp add: rec_executor_def request1_def)
  note T = request_executor_reply
    [where executor = "rec_executor 5" and request = request1 and w = "[]"
       and resultChan = 5 and ?w1.0 = "[Executed [1]]" and id' = 2
       and signer = "rec_signer [9]" and handleGeneratedMessage = rec_handleMessage,
     OF x]
  have s: "rec_signer [9]
      \<lparr>Reply.Msg = \<lparr>Reply_M.ReplicaId = 2,
           Reply_M.ClientId = Request_M.ClientId (Request.Msg request1),
           Reply_M.Seq = Request_M.Seq (Request.Msg request1), Result = [4]\<rparr>,
       Reply.Signature = []\<rparr> [Executed [1]] =
      (Returned ?r1, [Executed [1], SignedReply ?r0])"
    by (simp add: rec_signer_def request1_def)
  from T s have "makeRequestExecutor_goroutine 2 (rec_signer [9]) rec_handleMessage request1 [4]
       [Executed [1]] = rec_handleMessage ?r1 [Executed [1], SignedReply ?r0]"
    by blast
  then have g: "makeRequestExecutor_goroutine 2 (rec_signer [9]) rec_handleMessage request1 [4]
       [Executed [1]] = (Returned (), [Executed [1], SignedReply ?r0, HandledMessage ?r1])"
    by (simp add: rec_handleMessage_def)
  from T have m: "makeRequestExecutor 2 (rec_executor 5) (rec_signer [9]) rec_handleMessage
      request1 [] =
     (Returned (5, makeRequestExecutor_goroutine 2 (rec_signer [9]) rec_handleMessage request1),
      [Executed [1]])"
    by blast
  from x m g show ?thesis by blast
qed

text \<open>
  C8. The request applier starts no request timer: whatever part of the state the view
  provider and the handler of generated UI messages leave unchanged, the applier leaves
  unchanged.
\<close>

theorem request_applier_starts_no_timer:
  assumes "\<forall>u. timer (snd (view u)) = timer u"
    and "\<forall>m u. timer (snd (handleGeneratedUIMessage m u)) = timer u"
  shows "timer (snd (makeRequestApplier isPrimary' id' n view handleGeneratedUIMessage request w)) =
         timer w"
proof -
  obtain r w1 where v: "view w = (r, w1)" by (cases "view w")
  from assms(1) have "timer (snd (view w)) = timer w" by blast
  with v have t1: "timer w1 = timer w" by simp
  have t2: "timer w2 = timer w" if "handleGeneratedUIMessage m w1 = (x, w2)" for m x w2
  proof -
    from assms(2) have "timer (snd (handleGeneratedUIMessage m w1)) = timer w1" by blast
    with that t1 show ?thesis by simp
  qed
  show ?thesis
  proof (cases r)
    case (Panicked p)
    with v t1 show ?thesis by (simp add: makeRequestApplier_def)
  next
    case (Returned x)
    show ?thesis
    proof (cases "isPrimary' x id' n")
      case (Panicked p)
      with v t1 Returned show ?thesis by (simp add: makeRequestApplier_def)
    next
      case ip: (Returned primary)
      show ?thesis
      proof (cases primary)
        case False
        with v t1 Returned ip show ?thesis by (simp add: makeRequestApplier_def)
      next
        case True
        obtain y w2 where h: "handleGeneratedUIMessage
            \<lparr>Prepare.Msg = \<lparr>View = x, Prepare_M.ReplicaId = id', Request = request\<rparr>,
             Ui = None\<rparr> w1 = (y, w2)"
          by (cases "handleGeneratedUIMessage
            \<lparr>Prepare.Msg = \<lparr>View = x, Prepare_M.ReplicaId = id', Request = request\<rparr>,
             Ui = None\<rparr> w1")
        from t2 [OF h] have "timer w2 = timer w" .
        with v Returned ip True h show ?thesis
          by (cases y) (simp_all add: makeRequestApplier_def)
      qed
    qed
  qed
qed

theorem request_applier_starts_no_timer_witness:
  "(\<forall>u. timerEvents (snd (rec_view 3 u)) = timerEvents u)
   \<and> (\<forall>m u. timerEvents (snd (rec_handleUIMessage m u)) = timerEvents u)
   \<and> timerEvents (snd (makeRequestApplier isPrimary 0 3 (rec_view 3) rec_handleUIMessage
        request1 [StartedTimer])) = [StartedTimer]"
proof -
  have v: "\<forall>u. timerEvents (snd (rec_view 3 u)) = timerEvents u"
    by (simp add: rec_view_def timerEvents_def)
  have h: "\<forall>m u. timerEvents (snd (rec_handleUIMessage m u)) = timerEvents u"
    by (simp add: rec_handleUIMessage_def timerEvents_def)
  from request_applier_starts_no_timer
    [where timer = timerEvents and view = "rec_view 3"
       and handleGeneratedUIMessage = rec_handleUIMessage and isPrimary' = isPrimary
       and id' = 0 and n = 3 and request = request1 and w = "[StartedTimer]",
     OF v h]
  have "timerEvents (snd (makeRequestApplier isPrimary 0 3 (rec_view 3) rec_handleUIMessage
        request1 [StartedTimer])) = [StartedTimer]"
    by (simp add: timerEvents_def)
  with v h show ?thesis by blast
qed

text \<open>
  C9. When captureSeq reports new and the applier returns an error, the request
  processor still runs the release function and returns new = false with the error
  "Failed to apply Request: " followed by the applier's error.
\<close>

theorem request_processor_apply_error:
  assumes "captureSeq request w = (Returned (True, releaseSeq), w1)"
    and "applyRequest request w1 = (Returned (Some err), w2)"
    and "releaseSeq w2 = (Returned (), w3)"
  shows "makeRequestProcessor captureSeq applyRequest request w =
           (Returned (False, Some (''Failed to apply Request: '' @ err)), w3)"
  using assms by (simp add: makeRequestProcessor_def deferred_def)

theorem request_processor_apply_error_witness:
  "rec_captureSeq True request1 [] =
     (Returned (True, rec_releaseSeq request1), [CapturedSeq request1])
   \<and> rec_applyRequest (Some ''no view'') request1 [CapturedSeq request1] =
     (Returned (Some ''no view''), [CapturedSeq request1, AppliedRequest request1])
   \<and> rec_releaseSeq request1 [CapturedSeq request1, AppliedRequest request1] =
     (Returned (), [CapturedSeq request1, AppliedRequest request1, ReleasedSeq request1])
   \<and> makeRequestProcessor (rec_captureSeq True) (rec_applyRequest (Some ''no view''))
       request1 [] =
     (Returned (False, Some ''Failed to apply Request: no view''),
      [CapturedSeq request1, AppliedRequest request1, ReleasedSeq request1])"
proof -
  have c: "rec_captureSeq True request1 [] =
      (Returned (True, rec_releaseSeq request1), [CapturedSeq request1])"
    by (simp add: rec_captureSeq_def)
  have a: "rec_applyRequest (Some ''no view'') request1 [CapturedSeq request1] =
      (Returned (Some ''no view''), [CapturedSeq request1, AppliedRequest request1])"
    by (simp add: rec_applyRequest_def)
  have r: "rec_releaseSeq request1 [CapturedSeq request1, AppliedRequest request1] =
      (Returned (), [CapturedSeq request1, AppliedRequest request1, ReleasedSeq request1])"
    by (simp add: rec_releaseSeq_def)
  from request_processor_apply_error
    [where captureSeq = "rec_captureSeq True" and request = request1 and w = "[]"
       and releaseSeq = "rec_releaseSeq request1" and ?w1.0 = "[CapturedSeq request1]"
       and applyRequest = "rec_applyRequest (Some ''no view'')" and err = "''no view''"
       and ?w2.0 = "[CapturedSeq request1, AppliedRequest request1]"
       and ?w3.0 = "[CapturedSeq request1, AppliedRequest request1, ReleasedSeq request1]",
     OF c a r] c a r show ?thesis by simp
qed

text \<open>
  C10. Whenever the request applier returns, its error is nil. A request processor wired
  with it therefore returns new = true with a nil error whenever captureSeq reports new
  and the processor returns; and it does return when the view provider, the primary test,
  the handler and the release function return.
\<close>

theorem request_applier_error_always_nil:
  "(makeRequestApplier isPrimary' id' n view handleGeneratedUIMessage request w =
      (Returned err, w') \<longrightarrow> err = None)
   \<and> (captureSeq request w = (Returned (True, releaseSeq), w1) \<and>
      makeRequestProcessor captureSeq
        (makeRequestApplier isPrimary' id' n view handleGeneratedUIMessage) request w =
      (Returned res, w') \<longrightarrow> res = (True, None))
   \<and> (captureSeq request w = (Returned (True, releaseSeq), w1) \<and>
      view w1 = (Returned v, w2) \<and> isPrimary' v id' n = Returned primary \<and>
      (\<forall>m u. \<exists>u'. handleGeneratedUIMessage m u = (Returned (), u')) \<and>
      (\<forall>u. \<exists>u'. releaseSeq u = (Returned (), u')) \<longrightarrow>
      (\<exists>w3. makeRequestProcessor captureSeq
        (makeRequestApplier isPrimary' id' n view handleGeneratedUIMessage) request w =
      (Returned (True, None), w3)))"
proof (intro conjI impI)
  assume "makeRequestApplier isPrimary' id' n view handleGeneratedUIMessage request w =
      (Returned err, w')"
  then show "err = None" by (rule applier_returns_nil)
next
  assume a: "captureSeq request w = (Returned (True, releaseSeq), w1) \<and>
      makeRequestProcessor captureSeq
        (makeRequestApplier isPrimary' id' n view handleGeneratedUIMessage) request w =
      (Returned res, w')"
  obtain r u where ap: "makeRequestApplier isPrimary' id' n view handleGeneratedUIMessage request w1 = (r, u)"
    by (cases "makeRequestApplier isPrimary' id' n view handleGeneratedUIMessage request w1")
  show "res = (True, None)"
  proof (cases r)
    case (Returned err)
    with ap have "makeRequestApplier isPrimary' id' n view handleGeneratedUIMessage request w1 =
        (Returned err, u)" by simp
    then have "err = None" by (rule applier_returns_nil)
    with a ap Returned show ?thesis
      by (auto simp: makeRequestProcessor_def deferred_def split: prod.splits outcome.splits)
  next
    case (Panicked p)
    with a ap show ?thesis
      by (auto simp: makeRequestProcessor_def deferred_def split: prod.splits outcome.splits)
  qed
next
  assume a: "captureSeq request w = (Returned (True, releaseSeq), w1) \<and>
      view w1 = (Returned v, w2) \<and> isPrimary' v id' n = Returned primary \<and>
      (\<forall>m u. \<exists>u'. handleGeneratedUIMessage m u = (Returned (), u')) \<and>
      (\<forall>u. \<exists>u'. releaseSeq u = (Returned (), u'))"
  then obtain u where ap: "makeRequestApplier isPrimary' id' n view handleGeneratedUIMessage request w1 = (Returned None, u)"
  proof (cases primary)
    case True
    from a obtain u' where "handleGeneratedUIMessage
            \<lparr>Prepare.Msg = \<lparr>View = v, Prepare_M.ReplicaId = id', Request = request\<rparr>,
             Ui = None\<rparr> w2 = (Returned (), u')" by blast
    with a True have "makeRequestApplier isPrimary' id' n view handleGeneratedUIMessage request w1 = (Returned None, u')"
      by (simp add: makeRequestApplier_def)
    then show ?thesis using that by blast
  next
    case False
    with a have "makeRequestApplier isPrimary' id' n view handleGeneratedUIMessage request w1 = (Returned None, w2)"
      by (simp add: makeRequestApplier_def)
    then show ?thesis using that by blast
  qed
  from a obtain u' where "releaseSeq u = (Returned (), u')" by blast
  with a ap have "makeRequestProcessor captureSeq
        (makeRequestApplier isPrimary' id' n view handleGeneratedUIMessage) request w =
      (Returned (True, None), u')"
    by (simp add: makeRequestProcessor_def deferred_def)
  then show "\<exists>w3. makeRequestProcessor captureSeq
        (makeRequestApplier isPrimary' id' n view handleGeneratedUIMessage) request w =
      (Returned (True, None), w3)" by blast
qed

theorem request_applier_error_always_nil_witness:
  "makeRequestApplier isPrimary 0 3 (rec_view 3) rec_handleUIMessage request1 [] =
     (Returned None,
      [ReadView,
       HandledUIMessage
         \<lparr>Prepare.Msg = \<lparr>View = 3, Prepare_M.ReplicaId = 0, Request = request1\<rparr>,
          Ui = None\<rparr>])
   \<and> rec_captureSeq True request1 [] =
     (Returned (True, rec_releaseSeq request1), [CapturedSeq request1])
   \<and> rec_view 3 [CapturedSeq request1] = (Returned 3, [CapturedSeq request1, ReadView])
   \<and> isPrimary 3 0 3 = Returned True
   \<and> (\<forall>m u. \<exists>u'. rec_handleUIMessage m u = (Returned (), u'))
   \<and> (\<forall>u. \<exists>u'. rec_releaseSeq request1 u = (Returned (), u'))
   \<and> makeRequestProcessor (rec_captureSeq True)
       (makeRequestApplier isPrimary 0 3 (rec_view 3) rec_handleUIMessage) request1 [] =
     (Returned (True, None),
      [CapturedSeq request1, ReadView,
       HandledUIMessage
         \<lparr>Prepare.Msg = \<lparr>View = 3, Prepare_M.ReplicaId = 0, Request = request1\<rparr>,
          Ui = None\<rparr>,
       ReleasedSeq request1])"
proof -
  let ?p = "\<lparr>Prepare.Msg = \<lparr>View = 3, Prepare_M.ReplicaId = 0, Request = request1\<rparr>,
          Ui = None\<rparr>"
  note T = request_applier_error_always_nil
    [where isPrimary' = isPrimary and id' = 0 and n = 3 and view = "rec_view 3"
       and handleGeneratedUIMessage = rec_handleUIMessage and request = request1
       and w = "[]" and captureSeq = "rec_captureSeq True"
       and releaseSeq = "rec_releaseSeq request1" and ?w1.0 = "[CapturedSeq request1]"
       and v = 3 and ?w2.0 = "[CapturedSeq request1, ReadView]" and primary = True]
  have a: "makeRequestApplier isPrimary 0 3 (rec_view 3) rec_handleUIMessage request1 [] =
     (Returned None, [ReadView, HandledUIMessage ?p])"
    by (simp add: makeRequestApplier_def isPrimary_def primaryId_def rec_view_def
        rec_handleUIMessage_def)
  have c: "rec_captureSeq True request1 [] =
     (Returned (True, rec_releaseSeq request1), [CapturedSeq request1])"
    by (simp add: rec_captureSeq_def)
  have v: "rec_view 3 [CapturedSeq request1] = (Returned 3, [CapturedSeq request1, ReadView])"
    by (simp add: rec_view_def)
  have i: "isPrimary 3 0 3 = Returned True"
    by (simp add: isPrimary_def primaryId_def)
  have h: "\<forall>m u. \<exists>u'. rec_handleUIMessage m u = (Returned (), u')"
    by (simp add: rec_handleUIMessage_def)
  have r: "\<forall>u. \<exists>u'. rec_releaseSeq request1 u = (Returned (), u')"
    by (simp add: rec_releaseSeq_def)
  from T c v i h r obtain w3 where "makeRequestProcessor (rec_captureSeq True)
       (makeRequestApplier isPrimary 0 3 (rec_view 3) rec_handleUIMessage) request1 [] =
     (Returned (True, None), w3)"
    by blast
  moreover have "snd (makeRequestProcessor (rec_captureSeq True)
       (makeRequestApplier isPrimary 0 3 (rec_view 3) rec_handleUIMessage) request1 []) =
     [CapturedSeq request1, ReadView, HandledUIMessage ?p, ReleasedSeq request1]"
    by (simp add: makeRequestProcessor_def deferred_def makeRequestApplier_def isPrimary_def
        primaryId_def rec_view_def rec_handleUIMessage_def rec_captureSeq_def
        rec_releaseSeq_def)
  ultimately have p: "makeRequestProcessor (rec_captureSeq True)
       (makeRequestApplier isPrimary 0 3 (rec_view 3) rec_handleUIMessage) request1 [] =
     (Returned (True, None),
      [CapturedSeq request1, ReadView, HandledUIMessage ?p, ReleasedSeq request1])"
    by simp
  from a c v i h r p show ?thesis by blast
qed

end
